theory Spec2Isabelle
  imports Complex_Main "HOL-Library.AList" "HOL-Library.Char_ord" "HOL-Library.List_Lexorder"
    "HOL-Library.Sublist"
begin

section \<open>JSON values and the Python operations applied to them\<close>

text \<open>
  The program handles the parsed bodies of GeoJSON responses: Python values built from
  \<^verbatim>\<open>None\<close>, booleans, integers, floats, strings, lists and dictionaries. A dictionary is
  an association list in insertion order with pairwise distinct keys; \<open>map_of\<close> reads it.
  A float is carried by its real value: the modelled code never computes with one, it
  only tests it for zero. A string is a list of characters, one per code point (the
  code points below 256); strings compare as Python compares them, character by
  character with a proper prefix smaller.
\<close>

datatype json =
    JNull
  | JBool bool
  | JInt int
  | JFloat real
  | JStr string
  | JList "json list"
  | JObj "(string \<times> json) list"

text \<open>
  The exceptions that leave a function of \<^verbatim>\<open>main.py\<close>. None of them is a
  \<^verbatim>\<open>requests.RequestException\<close>, so no \<^verbatim>\<open>except\<close> clause of the program catches them.
  \<open>LibraryError\<close> is an exception raised inside an external library call, \<open>OSError\<close> one
  raised by the file system.
\<close>

datatype exn =
    KeyError string
  | TypeError
  | AttributeError
  | StopIteration
  | AssertionError
  | IndexError
  | OSError string
  | LibraryError string

text \<open>Sequencing: an exception raised by the first step ends the computation.\<close>

definition then_do :: "exn + 'a \<Rightarrow> ('a \<Rightarrow> exn + 'b) \<Rightarrow> exn + 'b" where
  "then_do m f = (case m of Inl e \<Rightarrow> Inl e | Inr x \<Rightarrow> f x)"

text \<open>A list comprehension, or a loop over a list, whose body may raise: the elements are
  handled in order and the first exception ends it.\<close>

fun traverse :: "('a \<Rightarrow> exn + 'b) \<Rightarrow> 'a list \<Rightarrow> exn + 'b list" where
  "traverse f [] = Inr []"
| "traverse f (x # xs) =
     (case f x of
        Inl e \<Rightarrow> Inl e
      | Inr y \<Rightarrow> (case traverse f xs of Inl e \<Rightarrow> Inl e | Inr ys \<Rightarrow> Inr (y # ys)))"

text \<open>\<^verbatim>\<open>x[k]\<close> with a string key \<open>k\<close>: only a dictionary can be read that way.\<close>

fun subscr :: "json \<Rightarrow> string \<Rightarrow> exn + json" where
  "subscr (JObj kv) k = (case map_of kv k of None \<Rightarrow> Inl (KeyError k) | Some v \<Rightarrow> Inr v)"
| "subscr _ k = Inl TypeError"

text \<open>\<^verbatim>\<open>x.get(k, default)\<close>: only a dictionary has the method.\<close>

fun py_get :: "json \<Rightarrow> string \<Rightarrow> json \<Rightarrow> exn + json" where
  "py_get (JObj kv) k dflt = (case map_of kv k of None \<Rightarrow> Inr dflt | Some v \<Rightarrow> Inr v)"
| "py_get _ k dflt = Inl AttributeError"

text \<open>\<^verbatim>\<open>x[k] = v\<close> with a string key: a dictionary keeps the position of a key it has and
  appends a new one.\<close>

fun py_setitem :: "json \<Rightarrow> string \<Rightarrow> json \<Rightarrow> exn + json" where
  "py_setitem (JObj kv) k v = Inr (JObj (AList.update k v kv))"
| "py_setitem _ k v = Inl TypeError"

text \<open>Truth value of a Python object, as \<^verbatim>\<open>if x:\<close> and \<^verbatim>\<open>not x\<close> test it.\<close>

fun py_truthy :: "json \<Rightarrow> bool" where
  "py_truthy JNull = False"
| "py_truthy (JBool b) = b"
| "py_truthy (JInt i) = (i \<noteq> 0)"
| "py_truthy (JFloat x) = (x \<noteq> 0)"
| "py_truthy (JStr s) = (s \<noteq> [])"
| "py_truthy (JList xs) = (xs \<noteq> [])"
| "py_truthy (JObj kv) = (kv \<noteq> [])"

text \<open>\<^verbatim>\<open>for item in x\<close>: a list gives its elements, a string its characters, a dictionary
  its keys; nothing else is iterable.\<close>

fun py_iter :: "json \<Rightarrow> exn + json list" where
  "py_iter (JList xs) = Inr xs"
| "py_iter (JStr s) = Inr (map (\<lambda>c. JStr [c]) s)"
| "py_iter (JObj kv) = Inr (map (\<lambda>p. JStr (fst p)) kv)"
| "py_iter _ = Inl TypeError"

fun py_len :: "json \<Rightarrow> exn + nat" where
  "py_len (JList xs) = Inr (length xs)"
| "py_len (JStr s) = Inr (length s)"
| "py_len (JObj kv) = Inr (length kv)"
| "py_len _ = Inl TypeError"

text \<open>\<^verbatim>\<open>x[:3]\<close>: the first three characters of a string (all of it when it is shorter),
  the first three elements of a list. Slicing a dictionary raises (a \<^verbatim>\<open>TypeError\<close> up to
  Python 3.11, a \<^verbatim>\<open>KeyError\<close> from 3.12 on), as does slicing any other value.\<close>

fun py_slice3 :: "json \<Rightarrow> exn + json" where
  "py_slice3 (JStr s) = Inr (JStr (take 3 s))"
| "py_slice3 (JList xs) = Inr (JList (take 3 xs))"
| "py_slice3 _ = Inl TypeError"

text \<open>An element of \<^verbatim>\<open>set(site_codes)\<close> must be hashable. The elements are results of
  \<open>py_slice3\<close>: a string is hashable, a list is not.\<close>

fun hashable_str :: "json \<Rightarrow> exn + string" where
  "hashable_str (JStr s) = Inr s"
| "hashable_str _ = Inl TypeError"

text \<open>\<^verbatim>\<open>sep.join(xs)\<close> on a list of strings.\<close>

fun join :: "string \<Rightarrow> string list \<Rightarrow> string" where
  "join sep [] = []"
| "join sep [x] = x"
| "join sep (x # y # ys) = x @ sep @ join sep (y # ys)"

text \<open>\<^verbatim>\<open>str(n)\<close> of a natural number, for the counts the program prints.\<close>

function show_nat :: "nat \<Rightarrow> string" where
  "show_nat n =
     (if n < 10 then [''0123456789'' ! n]
      else show_nat (n div 10) @ [''0123456789'' ! (n mod 10)])"
  by pat_completeness auto
termination
  by (relation "measure id") auto

declare show_nat.simps [simp del]

text \<open>\<^verbatim>\<open>x[i]\<close> with an integer \<open>i\<close> that is not negative: an element of a list, a
  character of a string; a dictionary of a JSON body has no integer key.\<close>

fun py_index :: "json \<Rightarrow> nat \<Rightarrow> exn + json" where
  "py_index (JList xs) i = (if i < length xs then Inr (xs ! i) else Inl IndexError)"
| "py_index (JStr s) i = (if i < length s then Inr (JStr [s ! i]) else Inl IndexError)"
| "py_index (JObj kv) i = Inl (KeyError (show_nat i))"
| "py_index _ i = Inl TypeError"

text \<open>The outcome of a library call that returns nothing of interest.\<close>

definition raised :: "exn option \<Rightarrow> exn + unit" where
  "raised r = (case r of Some e \<Rightarrow> Inl e | None \<Rightarrow> Inr ())"

section \<open>The external collaborators\<close>

text \<open>
  What \<^verbatim>\<open>session.get(url, params)\<close>, \<^verbatim>\<open>response.raise_for_status()\<close> and
  \<^verbatim>\<open>response.json()\<close> come to, taken together: one of them raises a
  \<^verbatim>\<open>requests.RequestException\<close> (a transport failure, or the \<^verbatim>\<open>HTTPError\<close> of an error
  status) whose text is the argument, or the body parses to a JSON value.
\<close>

datatype http_outcome =
    Raises_RequestException string
  | Json_Body json

text \<open>What a run leaves behind, in order: the requests sent, the messages shown in the
  page (\<^verbatim>\<open>st.error\<close>, \<^verbatim>\<open>st.success\<close>), the lines printed on the console, the file written
  and the download offered.\<close>

datatype event =
    Http_Get string "(string \<times> json) list"
  | St_Error string
  | St_Success string
  | Print string
  | File_Write string json
  | Download_Button string string json

text \<open>
  The libraries the program calls, as parameters of the model:
  \<^item> \<open>http_get\<close>: the remote feature service behind the \<^verbatim>\<open>requests\<close> session;
  \<^item> \<open>py_repr\<close>: \<^verbatim>\<open>str(v)\<close> of a value that is not a string, as an f-string inserts it;
  \<^item> \<open>point_buffer\<close>: \<^verbatim>\<open>mapping(Point(coords).buffer(size))\<close> of \<^verbatim>\<open>shapely\<close>, which may raise;
  \<^item> \<open>folium_map\<close>: \<^verbatim>\<open>folium.Map(location=[lat, lon], ...)\<close>, given \<open>lat\<close> and \<open>lon\<close>;
  \<^item> \<open>folium_geojson\<close>: \<^verbatim>\<open>folium.GeoJson(feature, style_function=...).add_to(m)\<close>, given the
    feature and the selected feature (the program compares the two, which cannot raise,
    only to choose the style);
  \<^item> \<open>st_folium\<close>: \<^verbatim>\<open>st_folium(m, ...)\<close>, given the features of the page;
  \<^item> \<open>write_file\<close>: \<^verbatim>\<open>open(path, 'w')\<close> and \<^verbatim>\<open>json.dump\<close> of a document into it;
  \<^item> \<open>open_file\<close>: \<^verbatim>\<open>open(path, 'r')\<close> for the download.
  Each of the last five gives the exception it raises, or \<open>None\<close> when it returns.
\<close>

record env =
  http_get :: "string \<Rightarrow> (string \<times> json) list \<Rightarrow> http_outcome"
  py_repr :: "json \<Rightarrow> string"
  point_buffer :: "json \<Rightarrow> real \<Rightarrow> exn + json"
  folium_map :: "json \<Rightarrow> json \<Rightarrow> exn option"
  folium_geojson :: "json \<Rightarrow> json \<Rightarrow> exn option"
  st_folium :: "json list \<Rightarrow> exn option"
  write_file :: "string \<Rightarrow> json \<Rightarrow> exn option"
  open_file :: "string \<Rightarrow> exn option"

text \<open>\<^verbatim>\<open>f"{v}"\<close>: a string is inserted as it is.\<close>

definition py_format :: "env \<Rightarrow> json \<Rightarrow> string" where
  "py_format env v = (case v of JStr s \<Rightarrow> s | _ \<Rightarrow> py_repr env v)"

section \<open>The feature service client\<close>

definition BASE_URL :: string where
  "BASE_URL = ''https://gis.unhcr.org/arcgis/rest/services/core_v2/''"

definition EXPORT_FOLDER :: string where
  "EXPORT_FOLDER = ''data''"

definition polygon_url :: string where
  "polygon_url = BASE_URL @ ''wrl_prp_a_unhcr/FeatureServer/0/query''"

definition list_countries_params :: "(string \<times> json) list" where
  "list_countries_params =
     [(''f'', JStr ''geojson''), (''where'', JStr ''1=1''), (''outFields'', JStr ''*''),
      (''returnGeometry'', JStr ''false'')]"

text \<open>\<^verbatim>\<open>list_countries()\<close>: the result and the events of the call.\<close>

definition list_countries :: "env \<Rightarrow> (exn + string list) \<times> event list" where
  "list_countries env =
     (let ev = [Http_Get polygon_url list_countries_params] in
      case http_get env polygon_url list_countries_params of
        Raises_RequestException e \<Rightarrow> (Inr [], ev @ [St_Error (''Failed to fetch data: '' @ e)])
      | Json_Body data \<Rightarrow>
          (then_do (py_get data ''features'' (JList [])) (\<lambda>fv.
           then_do (py_iter fv) (\<lambda>items.
           then_do (traverse (\<lambda>item.
                      then_do (subscr item ''properties'') (\<lambda>p.
                      then_do (subscr p ''site_code'') py_slice3)) items) (\<lambda>site_codes.
           then_do (traverse hashable_str site_codes) (\<lambda>codes.
           Inr (sort (remdups codes)))))), ev))"

text \<open>\<^verbatim>\<open>feature['properties'][k] = v\<close>: the properties dictionary is changed in place,
  so the feature shows the change.\<close>

definition set_property :: "json \<Rightarrow> string \<Rightarrow> json \<Rightarrow> exn + json" where
  "set_property feature k v =
     then_do (subscr feature ''properties'') (\<lambda>p.
     then_do (py_setitem p k v) (\<lambda>p'.
     py_setitem feature ''properties'' p'))"

text \<open>A collection after a loop has changed the features of its \<^verbatim>\<open>features\<close> list in place:
  \<open>fv\<close> is the value under \<^verbatim>\<open>features\<close> the loop ran over, \<open>fs\<close> the features as the loop
  left them. A loop over a string or over the keys of a dictionary changes nothing.\<close>

definition with_features :: "json \<Rightarrow> json \<Rightarrow> json list \<Rightarrow> json" where
  "with_features coll fv fs =
     (case (coll, fv) of
        (JObj kv, JList old) \<Rightarrow> JObj (AList.update ''features'' (JList fs) kv)
      | _ \<Rightarrow> coll)"

definition extract_site_codes :: "json \<Rightarrow> exn + json list" where
  "extract_site_codes country_data =
     then_do (py_get country_data ''features'' (JList [])) (\<lambda>fv.
     then_do (py_iter fv) (\<lambda>items.
     traverse (\<lambda>item.
       then_do (subscr item ''properties'') (\<lambda>p. subscr p ''site_code'')) items))"

definition apostrophe :: char where
  "apostrophe = CHR 0x27"

text \<open>Lines 58 and 59 of \<^verbatim>\<open>query_points\<close>: the filter expression.\<close>

definition where_clause :: "env \<Rightarrow> string \<Rightarrow> json list \<Rightarrow> string" where
  "where_clause env country_code site_codes =
     (let site_codes_quoted =
            map (\<lambda>code. [apostrophe] @ py_format env code @ [apostrophe]) site_codes
      in ''iso3='' @ [apostrophe] @ country_code @ [apostrophe] @ '' AND pcode NOT IN (''
           @ join '','' site_codes_quoted @ '')'')"

definition points_url :: string where
  "points_url = BASE_URL @ ''wrl_prp_p_unhcr_PoC/FeatureServer/0/query''"

definition query_points_params :: "env \<Rightarrow> string \<Rightarrow> json list \<Rightarrow> (string \<times> json) list" where
  "query_points_params env country_code site_codes =
     [(''where'', JStr (where_clause env country_code site_codes)),
      (''outFields'', JStr ''pcode,gis_name''), (''f'', JStr ''geojson''),
      (''returnGeometry'', JStr ''true'')]"

text \<open>Line 73, the body of the loop over the point features.\<close>

definition prefix_gis_name :: "env \<Rightarrow> json \<Rightarrow> exn + json" where
  "prefix_gis_name env feature =
     then_do (subscr feature ''properties'') (\<lambda>p.
     then_do (subscr p ''gis_name'') (\<lambda>g.
     set_property feature ''prefixed_gis_name'' (JStr (''POINT_'' @ py_format env g))))"

text \<open>\<^verbatim>\<open>query_points(country_code, site_codes)\<close>. A failed request is printed on the
  console and gives the empty dictionary.\<close>

definition query_points :: "env \<Rightarrow> string \<Rightarrow> json list \<Rightarrow> (exn + json) \<times> event list" where
  "query_points env country_code site_codes =
     (let params = query_points_params env country_code site_codes;
          ev = [Http_Get points_url params] in
      case http_get env points_url params of
        Raises_RequestException e \<Rightarrow> (Inr (JObj []), ev @ [Print (''Failed to fetch data: '' @ e)])
      | Json_Body data \<Rightarrow>
          (then_do (subscr data ''features'') (\<lambda>fv.
           then_do (if py_truthy fv
                    then then_do (py_iter fv) (\<lambda>fs.
                         then_do (traverse (prefix_gis_name env) fs) (\<lambda>fs'.
                         Inr (with_features data fv fs')))
                    else Inr data) (\<lambda>data'.
           py_setitem data' ''feature_type'' (JStr ''Point''))), ev))"

definition query_polygons_params :: "string \<Rightarrow> (string \<times> json) list" where
  "query_polygons_params country_code =
     [(''where'', JStr (''site_code LIKE '' @ [apostrophe] @ country_code @ ''%'' @ [apostrophe])),
      (''outFields'', JStr ''site_code, name''), (''f'', JStr ''geojson''),
      (''returnGeometry'', JStr ''true''), (''geometryType'', JStr ''esriGeometryPolygon''),
      (''outSR'', JInt 4326)]"

text \<open>\<^verbatim>\<open>query_polygons(country_code)\<close>. A failed request is shown in the page and gives
  the empty dictionary.\<close>

definition query_polygons :: "env \<Rightarrow> string \<Rightarrow> (exn + json) \<times> event list" where
  "query_polygons env country_code =
     (let params = query_polygons_params country_code;
          ev = [Http_Get polygon_url params] in
      case http_get env polygon_url params of
        Raises_RequestException e \<Rightarrow> (Inr (JObj []), ev @ [St_Error (''Failed to fetch data: '' @ e)])
      | Json_Body data \<Rightarrow> (py_setitem data ''feature_type'' (JStr ''Polygon''), ev))"

section \<open>The buffering of points\<close>

text \<open>The body of the loop of \<^verbatim>\<open>gen_polygons\<close>: the new feature holds the buffer as its
  geometry and the very properties dictionary of the point feature.\<close>

definition buffer_feature :: "env \<Rightarrow> real \<Rightarrow> json \<Rightarrow> exn + json" where
  "buffer_feature env buffer_size feature =
     then_do (subscr feature ''geometry'') (\<lambda>g.
     then_do (subscr g ''coordinates'') (\<lambda>point_coords.
     then_do (point_buffer env point_coords buffer_size) (\<lambda>buffer.
     then_do (subscr feature ''properties'') (\<lambda>p.
     Inr (JObj [(''type'', JStr ''Feature''), (''geometry'', buffer), (''properties'', p)])))))"

definition gen_polygons :: "env \<Rightarrow> json \<Rightarrow> real \<Rightarrow> exn + json" where
  "gen_polygons env data buffer_size =
     then_do (py_get data ''features'' (JList [])) (\<lambda>fv.
     then_do (py_iter fv) (\<lambda>features.
     then_do (traverse (buffer_feature env buffer_size) features) (\<lambda>buffered_features.
     then_do (py_len fv) (\<lambda>n.
     if length buffered_features = n
     then Inr (JObj [(''type'', JStr ''FeatureCollection''),
                     (''features'', JList buffered_features)])
     else Inl AssertionError))))"

section \<open>The country pipeline\<close>

text \<open>A loop \<^verbatim>\<open>for feature in fv: feature['properties']['feature_type'] = tag\<close>.\<close>

definition tag_features :: "string \<Rightarrow> json \<Rightarrow> exn + json list" where
  "tag_features tag fv =
     then_do (py_iter fv) (traverse (\<lambda>feature. set_property feature ''feature_type'' (JStr tag)))"

text \<open>\<^verbatim>\<open>xs.extend(ys)\<close>: only a list has the method.\<close>

fun py_extend :: "json \<Rightarrow> json \<Rightarrow> exn + json" where
  "py_extend (JList xs) arg = then_do (py_iter arg) (\<lambda>ys. Inr (JList (xs @ ys)))"
| "py_extend _ arg = Inl AttributeError"

text \<open>Lines 164 to 185 of \<^verbatim>\<open>process_country\<close>: the points were fetched and are not empty.
  \<open>official\<close> is the polygon collection with its features tagged, \<open>ev\<close> the events so far.\<close>

definition merge_points ::
  "env \<Rightarrow> real \<Rightarrow> json \<Rightarrow> json \<Rightarrow> event list \<Rightarrow> (exn + json option) \<times> event list" where
  "merge_points env buffer_size_points official points_data ev =
     (case then_do (subscr points_data ''features'') py_len of
        Inl e \<Rightarrow> (Inl e, ev)
      | Inr n \<Rightarrow>
          (then_do (gen_polygons env points_data buffer_size_points) (\<lambda>generated.
           then_do (py_get generated ''features'' (JList [])) (\<lambda>gv.
           then_do (tag_features ''Generated Polygon'' gv) (\<lambda>gs.
           let generated_polygons = with_features generated gv gs in
           then_do (subscr official ''features'') (\<lambda>country_polygons.
           then_do (py_get generated_polygons ''features'' JNull) (\<lambda>gv'.
           then_do (if py_truthy gv'
                    then then_do (subscr generated_polygons ''features'')
                           (py_extend country_polygons)
                    else Inr country_polygons) (\<lambda>merged.
           Inr (Some (JObj [(''type'', JStr ''FeatureCollection''), (''features'', merged)])))))))),
           ev @ [Print (''Successfully fetched '' @ show_nat n @ '' points'')]))"

text \<open>Lines 151 to 162: the polygon collection is not empty (as a dictionary).\<close>

definition process_official ::
  "env \<Rightarrow> string \<Rightarrow> real \<Rightarrow> json \<Rightarrow> event list \<Rightarrow> (exn + json option) \<times> event list" where
  "process_official env country_code buffer_size_points official_polygons ev =
     (case then_do (subscr official_polygons ''features'') (\<lambda>fv.
           then_do (py_len fv) (\<lambda>n. Inr (fv, n))) of
        Inl e \<Rightarrow> (Inl e, ev)
      | Inr (fv, n) \<Rightarrow>
          (let ev2 = ev @ [Print (''Successfully fetched '' @ show_nat n @ '' official polygons'')] in
           case then_do (tag_features ''Official Polygon'' fv) (\<lambda>fs.
                let official = with_features official_polygons fv fs in
                then_do (extract_site_codes official) (\<lambda>site_codes.
                Inr (official, site_codes))) of
             Inl e \<Rightarrow> (Inl e, ev2)
           | Inr (official, site_codes) \<Rightarrow>
               (case query_points env country_code site_codes of
                  (Inl e, ev3) \<Rightarrow> (Inl e, ev2 @ ev3)
                | (Inr points_data, ev3) \<Rightarrow>
                    if \<not> py_truthy points_data
                    then (Inr (Some official), ev2 @ ev3 @ [Print ''No points data found''])
                    else (case py_get points_data ''features'' JNull of
                            Inl e \<Rightarrow> (Inl e, ev2 @ ev3)
                          | Inr pv \<Rightarrow>
                              if \<not> py_truthy pv
                              then (Inr (Some official),
                                    ev2 @ ev3 @ [Print ''No points data found''])
                              else merge_points env buffer_size_points official points_data
                                     (ev2 @ ev3)))))"

text \<open>\<^verbatim>\<open>process_country(country_code, buffer_size_points)\<close>: \<open>None\<close> is Python's
  \<^verbatim>\<open>None\<close>, returned when the polygon query gave the empty dictionary.\<close>

definition process_country ::
  "env \<Rightarrow> string \<Rightarrow> real \<Rightarrow> (exn + json option) \<times> event list" where
  "process_country env country_code buffer_size_points =
     (case query_polygons env country_code of
        (Inl e, ev) \<Rightarrow> (Inl e, ev)
      | (Inr official_polygons, ev) \<Rightarrow>
          if \<not> py_truthy official_polygons
          then (Inr None, ev @ [Print ''No data found for the country''])
          else process_official env country_code buffer_size_points official_polygons ev)"

section \<open>The page: labels, selection, renaming and export\<close>

text \<open>Line 213: the label of a feature, from its site code, name and feature-type tag,
  each \<^verbatim>\<open>N/A\<close> when the key is absent.\<close>

definition feature_label :: "env \<Rightarrow> json \<Rightarrow> exn + string" where
  "feature_label env feature =
     then_do (subscr feature ''properties'') (\<lambda>p.
     then_do (py_get p ''site_code'' (JStr ''N/A'')) (\<lambda>a.
     then_do (py_get p ''name'' (JStr ''N/A'')) (\<lambda>b.
     then_do (py_get p ''feature_type'' (JStr ''N/A'')) (\<lambda>c.
     Inr (py_format env a @ '' - '' @ py_format env b @ '' ('' @ py_format env c @ '')'')))))"

text \<open>Line 218: \<^verbatim>\<open>next(...)\<close> over the features paired with their labels. The label chosen
  in the select box is \<open>None\<close> when the box has no option.\<close>

definition select_feature :: "json list \<Rightarrow> string list \<Rightarrow> string option \<Rightarrow> exn + json" where
  "select_feature feature_options feature_labels selected_label =
     (case filter (\<lambda>(feature, label). Some label = selected_label)
             (zip feature_options feature_labels) of
        [] \<Rightarrow> Inl StopIteration
      | (feature, label) # rest \<Rightarrow> Inr feature)"

text \<open>\<^verbatim>\<open>k in x\<close>: a key of a dictionary, an element of a list, a substring of a string.\<close>

fun py_in :: "string \<Rightarrow> json \<Rightarrow> exn + bool" where
  "py_in k (JObj kv) = Inr (map_of kv k \<noteq> None)"
| "py_in k (JList xs) = Inr (JStr k \<in> set xs)"
| "py_in k (JStr s) = Inr (sublist k s)"
| "py_in k _ = Inl TypeError"

text \<open>\<^verbatim>\<open>x.pop(k)\<close> with a string \<open>k\<close>: the value removed and the object left.\<close>

fun py_pop :: "json \<Rightarrow> string \<Rightarrow> exn + json \<times> json" where
  "py_pop (JObj kv) k =
     (case map_of kv k of None \<Rightarrow> Inl (KeyError k) | Some v \<Rightarrow> Inr (v, JObj (AList.delete k kv)))"
| "py_pop (JList xs) k = Inl TypeError"
| "py_pop _ k = Inl AttributeError"

text \<open>\<^verbatim>\<open>if old in feature['properties']:
    feature['properties'][new] = feature['properties'].pop(old)\<close>\<close>

definition rename_property :: "string \<Rightarrow> string \<Rightarrow> json \<Rightarrow> exn + json" where
  "rename_property old new feature =
     then_do (subscr feature ''properties'') (\<lambda>p.
     then_do (py_in old p) (\<lambda>present.
     if present
     then then_do (py_pop p old) (\<lambda>(v, p').
          then_do (py_setitem p' new v) (\<lambda>p''.
          py_setitem feature ''properties'' p''))
     else Inr feature))"

text \<open>Lines 248 to 251, the body of the loop that renames for display.\<close>

definition display_rename :: "json \<Rightarrow> exn + json" where
  "display_rename feature =
     then_do (rename_property ''pcode'' ''site_code'' feature)
       (rename_property ''gis_name'' ''name'')"

text \<open>Lines 273 to 276, the body of the loop that renames for the file.\<close>

definition export_rename :: "json \<Rightarrow> exn + json" where
  "export_rename feature =
     then_do (rename_property ''site_code'' ''pcode'' feature)
       (rename_property ''name'' ''gis_name'')"

text \<open>What the page reads from its widgets in one run of the script: the label chosen in
  the select box, the labels chosen in the multiselect, and whether the button
  \<^verbatim>\<open>Generate GeoJSON file\<close> was pressed.\<close>

record ui_input =
  selected_label :: "string option"
  selected_features_to_export :: "string list"
  generate_button :: bool

text \<open>Lines 266 to 269: the features whose label is among the selected ones.\<close>

definition filter_selected :: "json list \<Rightarrow> string list \<Rightarrow> string list \<Rightarrow> json list" where
  "filter_selected feature_options feature_labels selected =
     map fst (filter (\<lambda>(feature, label). label \<in> set selected)
                (zip feature_options feature_labels))"

text \<open>Lines 221 to 232: the geometry of the selected feature, its type, and the first
  coordinate pair of a polygon or multipolygon (the pair itself otherwise); the map is
  centred on element 1 and element 0 of the pair, read in that order.\<close>

definition map_center :: "json \<Rightarrow> exn + json \<times> json" where
  "map_center selected_feature =
     then_do (subscr selected_feature ''geometry'') (\<lambda>selected_feature_geometry.
     then_do (subscr selected_feature_geometry ''type'') (\<lambda>t.
     then_do (if t = JStr ''Polygon''
              then then_do (subscr selected_feature_geometry ''coordinates'') (\<lambda>c.
                   then_do (py_index c 0) (\<lambda>c0. py_index c0 0))
              else if t = JStr ''MultiPolygon''
              then then_do (subscr selected_feature_geometry ''coordinates'') (\<lambda>c.
                   then_do (py_index c 0) (\<lambda>c0.
                   then_do (py_index c0 0) (\<lambda>c00. py_index c00 0)))
              else subscr selected_feature_geometry ''coordinates'') (\<lambda>coordinates.
     then_do (py_index coordinates 1) (\<lambda>lat.
     then_do (py_index coordinates 0) (\<lambda>lon.
     Inr (lat, lon))))))"

text \<open>Lines 236 to 242, the body of the loop that adds the features to the map: a
  feature is added when the type of its geometry is \<^verbatim>\<open>Polygon\<close> or \<^verbatim>\<open>MultiPolygon\<close>.\<close>

definition draw_feature :: "env \<Rightarrow> json \<Rightarrow> json \<Rightarrow> exn + unit" where
  "draw_feature env selected_feature feature =
     then_do (subscr feature ''geometry'') (\<lambda>g.
     then_do (subscr g ''type'') (\<lambda>t.
     if t = JStr ''Polygon'' \<or> t = JStr ''MultiPolygon''
     then raised (folium_geojson env feature selected_feature)
     else Inr ()))"

text \<open>Lines 221 to 244: the map is created, the features are added, the map is shown.\<close>

definition draw_map :: "env \<Rightarrow> json list \<Rightarrow> json \<Rightarrow> exn + unit" where
  "draw_map env feature_options selected_feature =
     then_do (map_center selected_feature) (\<lambda>(lat, lon).
     then_do (raised (folium_map env lat lon)) (\<lambda>u.
     then_do (traverse (draw_feature env selected_feature) feature_options) (\<lambda>us.
     raised (st_folium env feature_options))))"

text \<open>Lines 262 to 296, run when the button is pressed. The result is the list of the
  session's features after the block: the selected ones are renamed in place. The events
  are the message shown, then the document written to the file once the write has
  returned, then the download offered once the file has been reopened. An exception of
  the file system ends the block after the message.\<close>

definition export_block ::
  "env \<Rightarrow> string \<Rightarrow> json list \<Rightarrow> string list \<Rightarrow> string list
     \<Rightarrow> (exn + json list) \<times> event list" where
  "export_block env country_code feature_options feature_labels selected =
     (if selected = []
      then (Inr feature_options,
            [St_Error ''No feature selected. Please select at least one feature.''])
      else
        (let filtered_output_file =
               EXPORT_FOLDER @ ''/'' @ country_code @ ''_filtered_polygons.geojson'' in
         case traverse export_rename (filter_selected feature_options feature_labels selected) of
           Inl e \<Rightarrow> (Inl e, [])
         | Inr filtered_features \<Rightarrow>
             (let filtered_data = JObj [(''type'', JStr ''FeatureCollection''),
                                        (''features'', JList filtered_features)];
                  shown = [St_Success (''Exported '' @ show_nat (length filtered_features)
                                         @ '' features to '' @ filtered_output_file)] in
              case write_file env filtered_output_file filtered_data of
                Some e \<Rightarrow> (Inl e, shown)
              | None \<Rightarrow>
                  (case open_file env filtered_output_file of
                     Some e \<Rightarrow> (Inl e, shown @ [File_Write filtered_output_file filtered_data])
                   | None \<Rightarrow>
                       (Inr (map (\<lambda>(feature, label).
                                    if label \<in> set selected
                                    then (case export_rename feature of
                                            Inr f \<Rightarrow> f | Inl e \<Rightarrow> feature)
                                    else feature)
                               (zip feature_options feature_labels)),
                        shown @
                        [File_Write filtered_output_file filtered_data,
                         Download_Button ''Download Filtered GeoJSON''
                           (country_code @ ''_filtered_polygons.geojson'') filtered_data])))))"

text \<open>Lines 206 to 296: one run of the script over the collection held in the session.
  The labels are computed first, from the features as the session holds them; the map
  is drawn; the features are renamed for display afterwards, and the export works on
  the renamed features with those labels.\<close>

definition display_page ::
  "env \<Rightarrow> string \<Rightarrow> ui_input \<Rightarrow> json \<Rightarrow> (exn + json list) \<times> event list" where
  "display_page env country_code ui country_data =
     (case then_do (subscr country_data ''features'') (\<lambda>features.
           then_do (py_iter features) (\<lambda>feature_options.
           then_do (traverse (feature_label env) feature_options) (\<lambda>feature_labels.
           then_do (select_feature feature_options feature_labels (selected_label ui))
             (\<lambda>selected_feature.
           then_do (draw_map env feature_options selected_feature) (\<lambda>u.
           then_do (traverse display_rename feature_options) (\<lambda>renamed.
           Inr (renamed, feature_labels))))))) of
        Inl e \<Rightarrow> (Inl e, [])
      | Inr (renamed, feature_labels) \<Rightarrow>
          if generate_button ui
          then export_block env country_code renamed feature_labels
                 (selected_features_to_export ui)
          else (Inr renamed, []))"

section \<open>Notions used to state the results\<close>

text \<open>For stating results: the site code a feature carries, when it is a dictionary whose
  \<^verbatim>\<open>properties\<close> dictionary has a string \<^verbatim>\<open>site_code\<close>; and the site codes of a whole
  response, when every feature carries one (none for a failed request or a body without
  \<^verbatim>\<open>features\<close>).\<close>

definition feature_site_code :: "json \<Rightarrow> string option" where
  "feature_site_code item =
     (case item of
        JObj kv \<Rightarrow>
          (case map_of kv ''properties'' of
             Some (JObj p) \<Rightarrow> (case map_of p ''site_code'' of Some (JStr s) \<Rightarrow> Some s | _ \<Rightarrow> None)
           | _ \<Rightarrow> None)
      | _ \<Rightarrow> None)"

definition response_site_codes :: "http_outcome \<Rightarrow> string list option" where
  "response_site_codes r =
     (case r of
        Raises_RequestException e \<Rightarrow> Some []
      | Json_Body (JObj d) \<Rightarrow>
          (case map_of d ''features'' of
             None \<Rightarrow> Some []
           | Some (JList fs) \<Rightarrow> those (map feature_site_code fs)
           | _ \<Rightarrow> None)
      | _ \<Rightarrow> None)"

text \<open>The value a feature holds under a key of its \<^verbatim>\<open>properties\<close> dictionary, and the
  whole dictionary as a mapping.\<close>

definition property :: "json \<Rightarrow> string \<Rightarrow> json option" where
  "property feature k =
     (case feature of
        JObj kv \<Rightarrow> (case map_of kv ''properties'' of Some (JObj p) \<Rightarrow> map_of p k | _ \<Rightarrow> None)
      | _ \<Rightarrow> None)"

definition has_properties :: "json \<Rightarrow> bool" where
  "has_properties feature =
     (case feature of
        JObj kv \<Rightarrow> (case map_of kv ''properties'' of Some (JObj p) \<Rightarrow> True | _ \<Rightarrow> False)
      | _ \<Rightarrow> False)"

text \<open>A feature with \<^verbatim>\<open>feature_type\<close> set to a tag in its properties.\<close>

definition tagged :: "string \<Rightarrow> json \<Rightarrow> json" where
  "tagged tag feature =
     (case feature of
        JObj kv \<Rightarrow>
          (case map_of kv ''properties'' of
             Some (JObj p) \<Rightarrow>
               JObj (AList.update ''properties''
                       (JObj (AList.update ''feature_type'' (JStr tag) p)) kv)
           | _ \<Rightarrow> feature)
      | _ \<Rightarrow> feature)"

text \<open>A point feature that \<^verbatim>\<open>gen_polygons\<close> can buffer: a dictionary with properties and a
  geometry whose coordinates \<^verbatim>\<open>shapely\<close> accepts.\<close>

definition bufferable :: "env \<Rightarrow> real \<Rightarrow> json \<Rightarrow> bool" where
  "bufferable env buffer_size feature =
     (case feature of
        JObj kv \<Rightarrow>
          map_of kv ''properties'' \<noteq> None \<and>
          (case map_of kv ''geometry'' of
             Some (JObj g) \<Rightarrow>
               (case map_of g ''coordinates'' of
                  Some c \<Rightarrow> (case point_buffer env c buffer_size of Inr b \<Rightarrow> True | Inl e \<Rightarrow> False)
                | None \<Rightarrow> False)
           | _ \<Rightarrow> False)
      | _ \<Rightarrow> False)"

text \<open>The coordinates of a feature: those of its geometry, when it has one.\<close>

definition point_coordinates :: "json \<Rightarrow> json option" where
  "point_coordinates feature =
     (case feature of
        JObj kv \<Rightarrow>
          (case map_of kv ''geometry'' of Some (JObj g) \<Rightarrow> map_of g ''coordinates'' | _ \<Rightarrow> None)
      | _ \<Rightarrow> None)"

text \<open>The generated polygon of a point feature of the point service's response: the
  buffer of its coordinates as geometry, and its properties with the prefixed name and
  the tag added. Undefined (\<open>None\<close>) for a feature the pipeline cannot process.\<close>

definition generated_from :: "env \<Rightarrow> real \<Rightarrow> json \<Rightarrow> json option" where
  "generated_from env buffer_size feature =
     (case feature of
        JObj kv \<Rightarrow>
          (case (map_of kv ''properties'', map_of kv ''geometry'') of
             (Some (JObj p), Some (JObj g)) \<Rightarrow>
               (case (map_of p ''gis_name'', map_of g ''coordinates'') of
                  (Some n, Some c) \<Rightarrow>
                    (case point_buffer env c buffer_size of
                       Inr b \<Rightarrow>
                         Some (JObj [(''type'', JStr ''Feature''), (''geometry'', b),
                                (''properties'',
                                 JObj (AList.update ''feature_type'' (JStr ''Generated Polygon'')
                                        (AList.update ''prefixed_gis_name''
                                           (JStr (''POINT_'' @ py_format env n)) p)))])
                     | Inl e \<Rightarrow> None)
                | _ \<Rightarrow> None)
           | _ \<Rightarrow> None)
      | _ \<Rightarrow> None)"

text \<open>The test of line 160 on the result of the point query:
  \<^verbatim>\<open>not points_data or not points_data.get("features")\<close>.\<close>

definition points_empty :: "json \<Rightarrow> bool" where
  "points_empty points_data =
     (\<not> py_truthy points_data \<or>
      (case py_get points_data ''features'' JNull of
         Inr v \<Rightarrow> \<not> py_truthy v
       | Inl e \<Rightarrow> False))"


text \<open>The properties of a feature as a mapping from keys to values, which is how two
  Python dictionaries compare.\<close>

definition properties_map :: "json \<Rightarrow> string \<Rightarrow> json option" where
  "properties_map feature = (\<lambda>k. property feature k)"

text \<open>The renaming for display followed by the renaming for export.\<close>

definition round_trip :: "json \<Rightarrow> exn + json" where
  "round_trip feature = then_do (display_rename feature) export_rename"

text \<open>A feature collection as the program builds it.\<close>

definition collection :: "json list \<Rightarrow> json" where
  "collection features = JObj [(''type'', JStr ''FeatureCollection''), (''features'', JList features)]"

text \<open>The collection \<^verbatim>\<open>query_polygons\<close> returns for a response body \<open>d\<close> whose features are
  \<open>fs\<close>, after the pipeline has tagged the features.\<close>

definition official_tagged :: "(string \<times> json) list \<Rightarrow> json list \<Rightarrow> json" where
  "official_tagged d fs =
     JObj (AList.update ''features'' (JList (map (tagged ''Official Polygon'') fs))
             (AList.update ''feature_type'' (JStr ''Polygon'') d))"

text \<open>What renaming a key does to a mapping: nothing when the key is absent; otherwise
  the value moves to the new key, replacing what the new key held.\<close>

definition rename_map :: "string \<Rightarrow> string \<Rightarrow> (string \<Rightarrow> json option) \<Rightarrow> string \<Rightarrow> json option" where
  "rename_map old new m = (case m old of None \<Rightarrow> m | Some v \<Rightarrow> (m(old := None))(new \<mapsto> v))"





section \<open>Fixed services and collections for the examples\<close>

text \<open>An environment around a given service: every value that is not a string prints as
  \<^verbatim>\<open>None\<close>, every buffer is a polygon around the point, the map is always drawn and the
  file system accepts every write.\<close>

definition fake_env :: "(string \<Rightarrow> (string \<times> json) list \<Rightarrow> http_outcome) \<Rightarrow> env" where
  "fake_env service =
     \<lparr>http_get = service,
      py_repr = (\<lambda>v. ''None''),
      point_buffer = (\<lambda>coords size. Inr (JObj [(''type'', JStr ''Polygon''),
                                                 (''coordinates'', JList [JList [coords]])])),
      folium_map = (\<lambda>lat lon. None),
      folium_geojson = (\<lambda>feature selected. None),
      st_folium = (\<lambda>features. None),
      write_file = (\<lambda>path document. None),
      open_file = (\<lambda>path. None)\<rparr>"

text \<open>An official polygon feature as the polygon service returns it (geometry left out),
  and a point feature as the point service returns it.\<close>

definition site_feature :: "string \<Rightarrow> string \<Rightarrow> json" where
  "site_feature code name =
     JObj [(''type'', JStr ''Feature''),
           (''properties'', JObj [(''site_code'', JStr code), (''name'', JStr name)])]"

definition point_feature :: "string \<Rightarrow> string \<Rightarrow> json" where
  "point_feature code name =
     JObj [(''type'', JStr ''Feature''),
           (''geometry'', JObj [(''type'', JStr ''Point''),
                                (''coordinates'', JList [JInt 36, JInt 1])]),
           (''properties'', JObj [(''pcode'', JStr code), (''gis_name'', JStr name)])]"

text \<open>A service whose only feature has a site code of two characters.\<close>

definition short_code_service :: "string \<Rightarrow> (string \<times> json) list \<Rightarrow> http_outcome" where
  "short_code_service url params = Json_Body (collection [site_feature ''AB'' ''Camp''])"

text \<open>A service with three sites in two countries.\<close>

definition two_country_service :: "string \<Rightarrow> (string \<times> json) list \<Rightarrow> http_outcome" where
  "two_country_service url params =
     Json_Body (collection [site_feature ''KEN002'' ''B'', site_feature ''ABC001'' ''A'',
                            site_feature ''KEN001'' ''C''])"

text \<open>A service that answers every query with a collection of zero features.\<close>

definition empty_service :: "string \<Rightarrow> (string \<times> json) list \<Rightarrow> http_outcome" where
  "empty_service url params = Json_Body (collection [])"

text \<open>A service on which every request fails.\<close>

definition failing_service :: "string \<Rightarrow> (string \<times> json) list \<Rightarrow> http_outcome" where
  "failing_service url params = Raises_RequestException ''503 Server Error''"

text \<open>A service whose only feature has properties without a site code.\<close>

definition missing_key_service :: "string \<Rightarrow> (string \<times> json) list \<Rightarrow> http_outcome" where
  "missing_key_service url params =
     Json_Body (collection [JObj [(''type'', JStr ''Feature''),
                                  (''properties'', JObj [(''name'', JStr ''Camp'')])]])"

text \<open>Two point features as the point service returns them.\<close>

definition two_points :: json where
  "two_points = collection [point_feature ''ABC003'' ''North'', point_feature ''ABC004'' ''South'']"



text \<open>The buffered feature of \<open>point_feature code name\<close> under \<open>fake_env\<close>.\<close>

definition buffered_feature :: "string \<Rightarrow> string \<Rightarrow> json" where
  "buffered_feature code name =
     JObj [(''type'', JStr ''Feature''),
           (''geometry'', JObj [(''type'', JStr ''Polygon''),
              (''coordinates'', JList [JList [JList [JInt 36, JInt 1]]])]),
           (''properties'', JObj [(''pcode'', JStr code), (''gis_name'', JStr name)])]"

text \<open>A service with two official sites and two points.\<close>

definition sites_and_points_service :: "string \<Rightarrow> (string \<times> json) list \<Rightarrow> http_outcome" where
  "sites_and_points_service url params =
     (if url = polygon_url
      then Json_Body (collection [site_feature ''ABC001'' ''East'', site_feature ''ABC002'' ''West''])
      else Json_Body (collection [point_feature ''ABC003'' ''North'',
                                  point_feature ''ABC004'' ''South'']))"

text \<open>The generated polygon of \<open>point_feature code name\<close> under \<open>fake_env\<close>.\<close>

definition generated_feature :: "string \<Rightarrow> string \<Rightarrow> json" where
  "generated_feature code name =
     JObj [(''type'', JStr ''Feature''),
           (''geometry'', JObj [(''type'', JStr ''Polygon''),
              (''coordinates'', JList [JList [JList [JInt 36, JInt 1]]])]),
           (''properties'', JObj [(''pcode'', JStr code), (''gis_name'', JStr name),
              (''prefixed_gis_name'', JStr (''POINT_'' @ name)),
              (''feature_type'', JStr ''Generated Polygon'')])]"





section \<open>Basic facts\<close>

lemma then_do_Inr [simp]: "then_do (Inr x) f = f x"
  by (simp add: then_do_def)

lemma then_do_Inl [simp]: "then_do (Inl e) f = Inl e"
  by (simp add: then_do_def)

lemma traverse_those:
  assumes "\<And>x y. g x = Some y \<Longrightarrow> f x = Inr (h y)"
    and "those (map g xs) = Some ys"
  shows "traverse f xs = Inr (map h ys)"
  using assms(2)
proof (induction xs arbitrary: ys)
  case Nil
  then show ?case by simp
next
  case (Cons x xs)
  then show ?case
    by (auto simp: assms(1) split: option.splits)
qed

lemma traverse_map:
  "(\<And>x. x \<in> set xs \<Longrightarrow> f x = Inr (g x)) \<Longrightarrow> traverse f xs = Inr (map g xs)"
  by (induction xs) auto

section \<open>The client: country codes\<close>

lemma site_code_slice:
  "feature_site_code item = Some s \<Longrightarrow>
   then_do (subscr item ''properties'') (\<lambda>p. then_do (subscr p ''site_code'') py_slice3)
     = Inr (JStr (take 3 s))"
  by (auto simp: feature_site_code_def split: json.splits option.splits)

lemma list_countries_result:
  assumes "response_site_codes (http_get env polygon_url list_countries_params) = Some codes"
  shows "fst (list_countries env) = Inr (sort (remdups (map (take 3) codes)))"
proof (cases "http_get env polygon_url list_countries_params")
  case (Raises_RequestException e)
  with assms show ?thesis
    by (simp add: list_countries_def response_site_codes_def)
next
  case (Json_Body data)
  with assms obtain d where d: "data = JObj d"
    by (auto simp: response_site_codes_def split: json.splits)
  show ?thesis
  proof (cases "map_of d ''features''")
    case None
    with assms Json_Body d show ?thesis
      by (simp add: list_countries_def response_site_codes_def)
  next
    case (Some fv)
    with assms Json_Body d obtain fs where fs: "fv = JList fs"
      and th: "those (map feature_site_code fs) = Some codes"
      by (auto simp: response_site_codes_def split: json.splits)
    have 1: "traverse (\<lambda>item. then_do (subscr item ''properties'')
               (\<lambda>p. then_do (subscr p ''site_code'') py_slice3)) fs
             = Inr (map (\<lambda>s. JStr (take 3 s)) codes)"
      by (rule traverse_those [OF site_code_slice th])
    have 2: "traverse hashable_str (map (\<lambda>s. JStr (take 3 s)) codes) = Inr (map (take 3) codes)"
      by (induction codes) auto
    show ?thesis
      using Json_Body d Some fs 1 2 by (simp add: list_countries_def)
  qed
qed

text \<open>
  C7, as the code has it. Whenever the request fails, or the body is a collection each
  of whose features carries a string site code, \<open>list_countries\<close> returns the prefixes
  of at most three characters of the site codes, in ascending order and without
  duplicates. An entry has exactly three characters when its site code has at least
  three; a shorter site code is listed whole.
\<close>

theorem list_countries_sorted_prefixes:
  assumes "response_site_codes (http_get env polygon_url list_countries_params) = Some codes"
  shows "\<exists>cs. fst (list_countries env) = Inr cs \<and> set cs = take 3 ` set codes
           \<and> sorted cs \<and> distinct cs \<and> (\<forall>c \<in> set cs. length c \<le> 3)
           \<and> ((\<forall>s \<in> set codes. 3 \<le> length s) \<longrightarrow> (\<forall>c \<in> set cs. length c = 3))"
  using list_countries_result [OF assms] by auto

text \<open>Three sites in two countries give the two codes, in order.\<close>

theorem list_countries_sorted_prefixes_witness:
  "response_site_codes
     (http_get (fake_env two_country_service) polygon_url list_countries_params)
     = Some [''KEN002'', ''ABC001'', ''KEN001'']
   \<and> fst (list_countries (fake_env two_country_service)) = Inr [''ABC'', ''KEN'']"
proof -
  have h: "response_site_codes
      (http_get (fake_env two_country_service) polygon_url list_countries_params)
      = Some [''KEN002'', ''ABC001'', ''KEN001'']"
    by (simp add: response_site_codes_def fake_env_def two_country_service_def
        feature_site_code_def site_feature_def collection_def)
  from list_countries_sorted_prefixes [OF h]
  obtain cs where cs: "fst (list_countries (fake_env two_country_service)) = Inr cs"
    and "set cs = take 3 ` set [''KEN002'', ''ABC001'', ''KEN001'']"
    and "sorted cs" and "distinct cs"
    by blast
  then have "set cs = {''ABC'', ''KEN''}" and "sorted cs" and "distinct cs"
    by auto
  moreover have "fst (list_countries (fake_env two_country_service)) = Inr [''ABC'', ''KEN'']"
    by (simp add: list_countries_def fake_env_def two_country_service_def site_feature_def
        collection_def)
  ultimately show ?thesis using h cs by simp
qed

text \<open>C7 as the spec states it fails: a site code of two characters gives an entry of
  length two.\<close>

theorem list_countries_short_code_counterexample:
  "fst (list_countries (fake_env short_code_service)) = Inr [''AB'']
   \<and> length ''AB'' \<noteq> (3::nat)"
  by (simp add: list_countries_def fake_env_def short_code_service_def site_feature_def
      collection_def)

section \<open>The client: failures\<close>

text \<open>
  C5, as the code has it. When the request raises a \<^verbatim>\<open>RequestException\<close> (a transport
  failure or an error status), each client operation returns its empty result without
  raising, and \<open>list_countries\<close> and \<open>query_polygons\<close> show the failure in the page.
\<close>

theorem client_request_failure:
  "(http_get env polygon_url list_countries_params = Raises_RequestException e \<longrightarrow>
      list_countries env =
        (Inr [], [Http_Get polygon_url list_countries_params,
                  St_Error (''Failed to fetch data: '' @ e)]))
   \<and> (http_get env polygon_url (query_polygons_params cc) = Raises_RequestException e \<longrightarrow>
      query_polygons env cc =
        (Inr (JObj []), [Http_Get polygon_url (query_polygons_params cc),
                         St_Error (''Failed to fetch data: '' @ e)]))
   \<and> (http_get env points_url (query_points_params env cc codes) = Raises_RequestException e \<longrightarrow>
      fst (query_points env cc codes) = Inr (JObj []))"
  by (simp add: list_countries_def query_polygons_def query_points_def)

text \<open>Every request fails with a server error.\<close>

theorem client_request_failure_witness:
  "list_countries (fake_env failing_service) =
     (Inr [], [Http_Get polygon_url list_countries_params,
               St_Error ''Failed to fetch data: 503 Server Error''])
   \<and> query_polygons (fake_env failing_service) ''ABC'' =
     (Inr (JObj []), [Http_Get polygon_url (query_polygons_params ''ABC''),
                      St_Error ''Failed to fetch data: 503 Server Error''])
   \<and> fst (query_points (fake_env failing_service) ''ABC'' [JStr ''ABC001'']) = Inr (JObj [])"
  using client_request_failure [of "fake_env failing_service" "''503 Server Error''" "''ABC''"
      "[JStr ''ABC001'']"]
  by (simp add: fake_env_def failing_service_def)

text \<open>C5 as the spec states it fails: a feature without \<^verbatim>\<open>site_code\<close> makes
  \<open>list_countries\<close> raise a \<^verbatim>\<open>KeyError\<close>, which no clause catches.\<close>

theorem list_countries_missing_key_counterexample:
  "fst (list_countries (fake_env missing_key_service)) = Inl (KeyError ''site_code'')"
  by (simp add: list_countries_def fake_env_def missing_key_service_def collection_def)

section \<open>The filter of the point query\<close>

text \<open>
  C4 at the empty exclusion list: the clause is neither left out nor given a value; the
  filter ends in \<^verbatim>\<open>pcode NOT IN ()\<close>, an \<^verbatim>\<open>IN\<close> list with no element.
\<close>

theorem where_clause_empty_exclusion:
  "where_clause env country_code [] =
     ''iso3='' @ [apostrophe] @ country_code @ [apostrophe] @ '' AND pcode NOT IN ()''
   \<and> where_clause env ''ABC'' [] = ''iso3='ABC' AND pcode NOT IN ()''"
  by (simp add: where_clause_def apostrophe_def)

section \<open>The pipeline: no official polygons\<close>

text \<open>A failed polygon request stops the pipeline: no result, and no point query.\<close>

lemma process_country_request_failed:
  assumes "http_get env polygon_url (query_polygons_params cc) = Raises_RequestException e"
  shows "process_country env cc r =
     (Inr None, [Http_Get polygon_url (query_polygons_params cc),
                 St_Error (''Failed to fetch data: '' @ e),
                 Print ''No data found for the country''])"
  using assms by (simp add: process_country_def query_polygons_def)

text \<open>
  C1 at a polygon response with zero features: the collection returned by
  \<open>query_polygons\<close> carries the key \<^verbatim>\<open>feature_type\<close>, so it is not empty as a dictionary.
  The pipeline goes on, sends the point query and returns the collection.
\<close>

theorem process_country_zero_features:
  "process_country (fake_env empty_service) ''ABC'' r =
     (Inr (Some (JObj [(''type'', JStr ''FeatureCollection''), (''features'', JList []),
                       (''feature_type'', JStr ''Polygon'')])),
      [Http_Get polygon_url (query_polygons_params ''ABC''),
       Print ''Successfully fetched 0 official polygons'',
       Http_Get points_url
         [(''where'', JStr ''iso3='ABC' AND pcode NOT IN ()''),
          (''outFields'', JStr ''pcode,gis_name''), (''f'', JStr ''geojson''),
          (''returnGeometry'', JStr ''true'')],
       Print ''No points data found''])"
  by (simp add: process_country_def query_polygons_def fake_env_def empty_service_def
      collection_def process_official_def tag_features_def with_features_def
      extract_site_codes_def query_points_def query_points_params_def where_clause_def
      apostrophe_def show_nat.simps)

section \<open>The buffering of points: length and properties\<close>

lemma bufferableE:
  assumes "bufferable env r p"
  obtains kv pr g c b where "p = JObj kv" and "map_of kv ''properties'' = Some pr"
    and "map_of kv ''geometry'' = Some (JObj g)" and "map_of g ''coordinates'' = Some c"
    and "point_buffer env c r = Inr b"
proof (cases p)
  case (JObj kv)
  with assms obtain pr where pr: "map_of kv ''properties'' = Some pr"
    by (auto simp: bufferable_def)
  from assms JObj obtain g where g: "map_of kv ''geometry'' = Some (JObj g)"
    by (auto simp: bufferable_def split: option.splits json.splits)
  from assms JObj g obtain c where c: "map_of g ''coordinates'' = Some c"
    by (auto simp: bufferable_def split: option.splits)
  from assms JObj g c obtain b where "point_buffer env c r = Inr b"
    by (auto simp: bufferable_def split: sum.splits)
  with JObj pr g c show ?thesis by (rule that)
qed (use assms in \<open>simp_all add: bufferable_def\<close>)

lemma buffer_feature_bufferable:
  assumes "bufferable env r p"
  shows "\<exists>f. buffer_feature env r p = Inr f
     \<and> (\<exists>c b pr. point_coordinates p = Some c \<and> point_buffer env c r = Inr b
           \<and> subscr p ''properties'' = Inr pr
           \<and> f = JObj [(''type'', JStr ''Feature''), (''geometry'', b), (''properties'', pr)])"
  using assms by (elim bufferableE) (simp add: buffer_feature_def point_coordinates_def)

lemma traverse_pointwise:
  assumes "\<And>x. x \<in> set xs \<Longrightarrow> \<exists>y. f x = Inr y \<and> P x y"
  shows "\<exists>ys. traverse f xs = Inr ys \<and> length ys = length xs \<and> (\<forall>i<length xs. P (xs ! i) (ys ! i))"
  using assms
proof (induction xs)
  case Nil
  then show ?case by simp
next
  case (Cons x xs)
  then obtain y where y: "f x = Inr y" "P x y" by auto
  from Cons obtain ys where ys: "traverse f xs = Inr ys" "length ys = length xs"
    "\<forall>i<length xs. P (xs ! i) (ys ! i)" by auto
  have "\<forall>i<length (x # xs). P ((x # xs) ! i) ((y # ys) ! i)"
    using y ys by (auto simp: nth_Cons split: nat.splits)
  with y ys show ?case by auto
qed

text \<open>
  C2. For every collection whose features are point features that can be buffered, and
  for every radius (in particular every radius above zero), \<open>gen_polygons\<close> returns a
  collection with as many features as the input, in the same order. The feature at
  each index is a \<^verbatim>\<open>Feature\<close> whose geometry is the buffer \<^verbatim>\<open>shapely\<close> gives for the
  coordinates of the input feature at that index, and whose properties are the
  properties of that input feature. The assertion at the end of the source function
  never fails.
\<close>

theorem gen_polygons_preserves:
  assumes "py_get data ''features'' (JList []) = Inr (JList ps)"
    and "\<forall>p \<in> set ps. bufferable env r p"
  shows "\<exists>out. gen_polygons env data r = Inr (collection out)
           \<and> length out = length ps
           \<and> (\<forall>i<length ps.
                 \<exists>c b pr. point_coordinates (ps ! i) = Some c
                   \<and> point_buffer env c r = Inr b
                   \<and> subscr (ps ! i) ''properties'' = Inr pr
                   \<and> out ! i = JObj [(''type'', JStr ''Feature''), (''geometry'', b),
                                     (''properties'', pr)]
                   \<and> subscr (out ! i) ''properties'' = subscr (ps ! i) ''properties'')"
proof -
  let ?P = "\<lambda>p f. \<exists>c b pr. point_coordinates p = Some c \<and> point_buffer env c r = Inr b
           \<and> subscr p ''properties'' = Inr pr
           \<and> f = JObj [(''type'', JStr ''Feature''), (''geometry'', b), (''properties'', pr)]"
  have "\<exists>ys. traverse (buffer_feature env r) ps = Inr ys \<and> length ys = length ps
      \<and> (\<forall>i<length ps. ?P (ps ! i) (ys ! i))"
  proof (rule traverse_pointwise)
    fix x assume "x \<in> set ps"
    with assms(2) have "bufferable env r x" by (rule bspec)
    then show "\<exists>y. buffer_feature env r x = Inr y \<and> ?P x y"
      by (rule buffer_feature_bufferable)
  qed
  then obtain out where tr: "traverse (buffer_feature env r) ps = Inr out"
    and len: "length out = length ps"
    and each: "\<forall>i<length ps. ?P (ps ! i) (out ! i)"
    by (elim exE conjE)
  have res: "gen_polygons env data r = Inr (collection out)"
    using assms(1) tr len by (simp add: gen_polygons_def collection_def)
  have each': "\<forall>i<length ps.
                 \<exists>c b pr. point_coordinates (ps ! i) = Some c
                   \<and> point_buffer env c r = Inr b
                   \<and> subscr (ps ! i) ''properties'' = Inr pr
                   \<and> out ! i = JObj [(''type'', JStr ''Feature''), (''geometry'', b),
                                     (''properties'', pr)]
                   \<and> subscr (out ! i) ''properties'' = subscr (ps ! i) ''properties''"
  proof (intro allI impI)
    fix i assume "i < length ps"
    with each have "?P (ps ! i) (out ! i)" by (elim allE impE)
    then obtain c b pr where 1: "point_coordinates (ps ! i) = Some c"
      and 2: "point_buffer env c r = Inr b"
      and 3: "subscr (ps ! i) ''properties'' = Inr pr"
      and 4: "out ! i = JObj [(''type'', JStr ''Feature''), (''geometry'', b),
                               (''properties'', pr)]"
      by (elim exE conjE)
    have 5: "subscr (out ! i) ''properties'' = subscr (ps ! i) ''properties''"
      unfolding 4 3 by simp
    show "\<exists>c b pr. point_coordinates (ps ! i) = Some c
                   \<and> point_buffer env c r = Inr b
                   \<and> subscr (ps ! i) ''properties'' = Inr pr
                   \<and> out ! i = JObj [(''type'', JStr ''Feature''), (''geometry'', b),
                                     (''properties'', pr)]
                   \<and> subscr (out ! i) ''properties'' = subscr (ps ! i) ''properties''"
      apply (rule exI [of _ c])
      apply (rule exI [of _ b])
      apply (rule exI [of _ pr])
      apply (intro conjI)
          apply (rule 1)
         apply (rule 2)
        apply (rule 3)
       apply (rule 4)
      apply (rule 5)
      done
  qed
  show ?thesis
    apply (rule exI [of _ out])
    apply (intro conjI)
      apply (rule res)
     apply (rule len)
    apply (rule each')
    done
qed

text \<open>Two points buffered with radius 0.01: each output feature is the buffer of its
  point with the point's properties.\<close>

theorem gen_polygons_preserves_witness:
  "py_get two_points ''features'' (JList [])
     = Inr (JList [point_feature ''ABC003'' ''North'', point_feature ''ABC004'' ''South''])
   \<and> bufferable (fake_env empty_service) (1/100) (point_feature ''ABC003'' ''North'')
   \<and> bufferable (fake_env empty_service) (1/100) (point_feature ''ABC004'' ''South'')
   \<and> gen_polygons (fake_env empty_service) two_points (1/100)
       = Inr (collection [buffered_feature ''ABC003'' ''North'',
                          buffered_feature ''ABC004'' ''South''])"
proof -
  have h1: "py_get two_points ''features'' (JList [])
     = Inr (JList [point_feature ''ABC003'' ''North'', point_feature ''ABC004'' ''South''])"
    by (simp add: two_points_def collection_def)
  have b1: "bufferable (fake_env empty_service) (1/100) (point_feature ''ABC003'' ''North'')"
    and b2: "bufferable (fake_env empty_service) (1/100) (point_feature ''ABC004'' ''South'')"
    by (simp_all add: bufferable_def fake_env_def point_feature_def)
  then have h2: "\<forall>p \<in> set [point_feature ''ABC003'' ''North'', point_feature ''ABC004'' ''South''].
      bufferable (fake_env empty_service) (1/100) p"
    by simp
  from gen_polygons_preserves [OF h1 h2] obtain out where
    o: "gen_polygons (fake_env empty_service) two_points (1/100) = Inr (collection out)"
    by (elim exE conjE)
  have v: "gen_polygons (fake_env empty_service) two_points (1/100)
       = Inr (collection [buffered_feature ''ABC003'' ''North'',
                          buffered_feature ''ABC004'' ''South''])"
    by (simp add: gen_polygons_def two_points_def collection_def buffer_feature_def
        point_feature_def buffered_feature_def fake_env_def)
  from o v have "out = [buffered_feature ''ABC003'' ''North'', buffered_feature ''ABC004'' ''South'']"
    by (simp add: collection_def)
  with o h1 b1 b2 show ?thesis by simp
qed

section \<open>The pipeline: tagging the official polygons\<close>

lemma propertyE:
  assumes "property f k = Some v"
  obtains kv p where "f = JObj kv" and "map_of kv ''properties'' = Some (JObj p)"
    and "map_of p k = Some v"
proof (cases f)
  case (JObj kv)
  with assms obtain p where p: "map_of kv ''properties'' = Some (JObj p)"
    by (auto simp: property_def split: option.splits json.splits)
  with assms JObj have "map_of p k = Some v"
    by (simp add: property_def)
  with JObj p show ?thesis by (rule that)
qed (use assms in \<open>simp_all add: property_def\<close>)

lemma has_propertiesE:
  assumes "has_properties f"
  obtains kv p where "f = JObj kv" and "map_of kv ''properties'' = Some (JObj p)"
proof (cases f)
  case (JObj kv)
  with assms obtain p where p: "map_of kv ''properties'' = Some (JObj p)"
    by (auto simp: has_properties_def split: option.splits json.splits)
  with JObj show ?thesis by (rule that)
qed (use assms in \<open>simp_all add: has_properties_def\<close>)

lemma property_has_properties: "property f k = Some v \<Longrightarrow> has_properties f"
  by (erule propertyE) (simp add: has_properties_def)

lemma set_property_tagged:
  "has_properties f \<Longrightarrow> set_property f ''feature_type'' (JStr tag) = Inr (tagged tag f)"
  by (erule has_propertiesE) (simp add: set_property_def tagged_def)

lemma property_tagged:
  "has_properties f \<Longrightarrow>
   property (tagged tag f) k = (if k = ''feature_type'' then Some (JStr tag) else property f k)"
  by (erule has_propertiesE) (simp add: tagged_def property_def AList.update_conv')

lemma tag_features_list:
  "(\<And>f. f \<in> set fs \<Longrightarrow> has_properties f) \<Longrightarrow>
   tag_features tag (JList fs) = Inr (map (tagged tag) fs)"
  by (simp add: tag_features_def traverse_map set_property_tagged)

lemma those_map_Some:
  "those (map g xs) = Some ys \<Longrightarrow> x \<in> set xs \<Longrightarrow> \<exists>y. g x = Some y"
  by (induction xs arbitrary: ys) (auto split: option.splits)

lemma those_map_length:
  "those (map g xs) = Some ys \<Longrightarrow> length ys = length xs"
  by (induction xs arbitrary: ys) (auto split: option.splits)

lemma those_map_set:
  "those (map g xs) = Some ys \<Longrightarrow> y \<in> set ys \<Longrightarrow> \<exists>x \<in> set xs. g x = Some y"
  by (induction xs arbitrary: ys) (auto split: option.splits)

lemma traverse_comp: "traverse f (map t xs) = traverse (\<lambda>x. f (t x)) xs"
  by (induction xs) (auto split: sum.splits)

lemma site_code_of_tagged:
  assumes "property f ''site_code'' = Some v"
  shows "then_do (subscr (tagged tag f) ''properties'') (\<lambda>p. subscr p ''site_code'') = Inr v"
  using assms by (elim propertyE) (simp add: tagged_def AList.update_conv')

lemma extract_site_codes_tagged:
  assumes "those (map (\<lambda>f. property f ''site_code'') fs) = Some codes"
  shows "extract_site_codes (JObj (AList.update ''features'' (JList (map (tagged tag) fs)) kv))
           = Inr codes"
proof -
  have "traverse (\<lambda>f. then_do (subscr (tagged tag f) ''properties'')
           (\<lambda>p. subscr p ''site_code'')) fs = Inr (map (\<lambda>v. v) codes)"
    by (rule traverse_those [OF site_code_of_tagged assms])
  then show ?thesis
    by (simp add: extract_site_codes_def AList.update_conv' traverse_comp)
qed

lemma process_country_official:
  assumes "http_get env polygon_url (query_polygons_params cc) = Json_Body (JObj d)"
    and "map_of d ''features'' = Some (JList fs)"
    and "those (map (\<lambda>f. property f ''site_code'') fs) = Some codes"
  shows "process_country env cc r =
    (let ev2 = [Http_Get polygon_url (query_polygons_params cc),
                Print (''Successfully fetched '' @ show_nat (length fs) @ '' official polygons'')]
     in case query_points env cc codes of
          (Inl e, ev3) \<Rightarrow> (Inl e, ev2 @ ev3)
        | (Inr points_data, ev3) \<Rightarrow>
            if points_empty points_data
            then (Inr (Some (official_tagged d fs)), ev2 @ ev3 @ [Print ''No points data found''])
            else (case py_get points_data ''features'' JNull of
                    Inl e \<Rightarrow> (Inl e, ev2 @ ev3)
                  | Inr pv \<Rightarrow> merge_points env r (official_tagged d fs) points_data (ev2 @ ev3)))"
proof -
  have hp: "\<And>f. f \<in> set fs \<Longrightarrow> has_properties f"
    using those_map_Some [OF assms(3)] property_has_properties by blast
  have tag: "tag_features ''Official Polygon'' (JList fs)
      = Inr (map (tagged ''Official Polygon'') fs)"
    by (rule tag_features_list [OF hp])
  have ex: "extract_site_codes (official_tagged d fs) = Inr codes"
    unfolding official_tagged_def by (rule extract_site_codes_tagged [OF assms(3)])
  have wf: "with_features (JObj (AList.update ''feature_type'' (JStr ''Polygon'') d)) (JList fs)
      (map (tagged ''Official Polygon'') fs) = official_tagged d fs"
    by (simp add: with_features_def official_tagged_def)
  show ?thesis
    using assms(1,2) tag ex wf
    by (auto simp: process_country_def query_polygons_def process_official_def
        AList.update_conv' points_empty_def Let_def split: prod.splits sum.splits)
qed

section \<open>The pipeline: no points\<close>





section \<open>The pipeline: merging polygons and points\<close>

lemma generated_fromE:
  assumes "generated_from env r f = Some gen"
  obtains kv p g n c b where "f = JObj kv" and "map_of kv ''properties'' = Some (JObj p)"
    and "map_of kv ''geometry'' = Some (JObj g)" and "map_of p ''gis_name'' = Some n"
    and "map_of g ''coordinates'' = Some c" and "point_buffer env c r = Inr b"
    and "gen = JObj [(''type'', JStr ''Feature''), (''geometry'', b),
                (''properties'',
                 JObj (AList.update ''feature_type'' (JStr ''Generated Polygon'')
                        (AList.update ''prefixed_gis_name''
                           (JStr (''POINT_'' @ py_format env n)) p)))]"
proof (cases f)
  case (JObj kv)
  from assms JObj obtain p where p: "map_of kv ''properties'' = Some (JObj p)"
    by (auto simp: generated_from_def split: option.splits json.splits)
  from assms JObj p obtain g where g: "map_of kv ''geometry'' = Some (JObj g)"
    by (auto simp: generated_from_def split: option.splits json.splits)
  from assms JObj p g obtain n where n: "map_of p ''gis_name'' = Some n"
    by (auto simp: generated_from_def split: option.splits)
  from assms JObj p g n obtain c where c: "map_of g ''coordinates'' = Some c"
    by (auto simp: generated_from_def split: option.splits)
  from assms JObj p g n c obtain b where b: "point_buffer env c r = Inr b"
    by (auto simp: generated_from_def split: sum.splits)
  from assms JObj p g n c b have "gen = JObj [(''type'', JStr ''Feature''), (''geometry'', b),
                (''properties'',
                 JObj (AList.update ''feature_type'' (JStr ''Generated Polygon'')
                        (AList.update ''prefixed_gis_name''
                           (JStr (''POINT_'' @ py_format env n)) p)))]"
    by (simp add: generated_from_def)
  with JObj p g n c b show ?thesis by (rule that)
qed (use assms in \<open>simp_all add: generated_from_def\<close>)

lemma generated_steps:
  assumes "generated_from env r f = Some gen"
  shows "\<exists>f' b. prefix_gis_name env f = Inr f' \<and> buffer_feature env r f' = Inr b
           \<and> set_property b ''feature_type'' (JStr ''Generated Polygon'') = Inr gen"
  using assms
  by (elim generated_fromE)
     (simp add: prefix_gis_name_def set_property_def buffer_feature_def AList.update_conv')

lemma generated_traversals:
  assumes "those (map (generated_from env r) ps) = Some gs"
  shows "\<exists>ps' bs. traverse (prefix_gis_name env) ps = Inr ps' \<and> length ps' = length ps
           \<and> traverse (buffer_feature env r) ps' = Inr bs \<and> length bs = length ps
           \<and> traverse (\<lambda>f. set_property f ''feature_type'' (JStr ''Generated Polygon'')) bs
               = Inr gs"
  using assms
proof (induction ps arbitrary: gs)
  case Nil
  then show ?case by simp
next
  case (Cons p ps)
  from Cons.prems obtain g gs' where g: "generated_from env r p = Some g"
    and gs': "those (map (generated_from env r) ps) = Some gs'" and gs: "gs = g # gs'"
    by (auto split: option.splits)
  from generated_steps [OF g] obtain p' b where
    "prefix_gis_name env p = Inr p'" "buffer_feature env r p' = Inr b"
    "set_property b ''feature_type'' (JStr ''Generated Polygon'') = Inr g"
    by blast
  moreover from Cons.IH [OF gs'] obtain ps' bs where
    "traverse (prefix_gis_name env) ps = Inr ps'" "length ps' = length ps"
    "traverse (buffer_feature env r) ps' = Inr bs" "length bs = length ps"
    "traverse (\<lambda>f. set_property f ''feature_type'' (JStr ''Generated Polygon'')) bs = Inr gs'"
    by blast
  ultimately have "traverse (prefix_gis_name env) (p # ps) = Inr (p' # ps')
      \<and> length (p' # ps') = length (p # ps)
      \<and> traverse (buffer_feature env r) (p' # ps') = Inr (b # bs)
      \<and> length (b # bs) = length (p # ps)
      \<and> traverse (\<lambda>f. set_property f ''feature_type'' (JStr ''Generated Polygon'')) (b # bs)
               = Inr gs"
    using gs by simp
  then show ?case by blast
qed

lemma generated_tag:
  "generated_from env r f = Some gen \<Longrightarrow>
   property gen ''feature_type'' = Some (JStr ''Generated Polygon'')"
  by (erule generated_fromE) (simp add: property_def AList.update_conv')

text \<open>
  C9. When the polygon response is a collection whose features carry site codes and the
  point response is a non-empty collection of point features the pipeline can process,
  \<open>process_country\<close> returns the collection of the official features, each tagged
  \<^verbatim>\<open>Official Polygon\<close>, followed by one generated polygon for each point, each tagged
  \<^verbatim>\<open>Generated Polygon\<close>; both groups are in the order of the service responses.
\<close>

theorem process_country_merge:
  assumes "http_get env polygon_url (query_polygons_params cc) = Json_Body (JObj d)"
    and "map_of d ''features'' = Some (JList fs)"
    and "those (map (\<lambda>f. property f ''site_code'') fs) = Some codes"
    and "http_get env points_url (query_points_params env cc codes) = Json_Body (JObj pd)"
    and "map_of pd ''features'' = Some (JList ps)"
    and "ps \<noteq> []"
    and "those (map (generated_from env r) ps) = Some gs"
  shows "fst (process_country env cc r)
           = Inr (Some (collection (map (tagged ''Official Polygon'') fs @ gs)))
    \<and> length gs = length ps
    \<and> (\<forall>f \<in> set (map (tagged ''Official Polygon'') fs).
          property f ''feature_type'' = Some (JStr ''Official Polygon''))
    \<and> (\<forall>g \<in> set gs. property g ''feature_type'' = Some (JStr ''Generated Polygon''))"
proof -
  from generated_traversals [OF assms(7)] obtain ps' bs where
    ps': "traverse (prefix_gis_name env) ps = Inr ps'" and lps': "length ps' = length ps"
    and bs: "traverse (buffer_feature env r) ps' = Inr bs" and lbs: "length bs = length ps"
    and tg: "traverse (\<lambda>f. set_property f ''feature_type'' (JStr ''Generated Polygon'')) bs
               = Inr gs"
    by blast
  have lgs: "length gs = length ps"
    by (rule those_map_length [OF assms(7)])
  with assms(6) have gs_ne: "gs \<noteq> []" by auto
  from assms(6) lps' have ps'_ne: "ps' \<noteq> []" by auto
  define points_data where
    "points_data = JObj (AList.update ''feature_type'' (JStr ''Point'')
                           (AList.update ''features'' (JList ps') pd))"
  have qp: "fst (query_points env cc codes) = Inr points_data"
    using assms(4,5,6) ps'
    by (simp add: query_points_def with_features_def points_data_def)
  then obtain ev3 where qp': "query_points env cc codes = (Inr points_data, ev3)"
    by (cases "query_points env cc codes") auto
  have ne: "\<not> points_empty points_data"
    using ps'_ne by (simp add: points_empty_def points_data_def AList.update_conv')
  have gen: "gen_polygons env points_data r = Inr (collection bs)"
    using bs lbs lps'
    by (simp add: gen_polygons_def points_data_def AList.update_conv' collection_def)
  have merge: "fst (merge_points env r (official_tagged d fs) points_data ev)
      = Inr (Some (collection (map (tagged ''Official Polygon'') fs @ gs)))" for ev
    using gen tg gs_ne
    by (simp add: merge_points_def points_data_def AList.update_conv' collection_def
        tag_features_def with_features_def official_tagged_def)
  have "fst (process_country env cc r)
      = Inr (Some (collection (map (tagged ''Official Polygon'') fs @ gs)))"
    using qp' ne merge
    by (simp add: process_country_official [OF assms(1-3)] points_data_def
        AList.update_conv')
  moreover have "\<forall>f \<in> set (map (tagged ''Official Polygon'') fs).
      property f ''feature_type'' = Some (JStr ''Official Polygon'')"
  proof
    fix f assume "f \<in> set (map (tagged ''Official Polygon'') fs)"
    then obtain f0 where f0: "f0 \<in> set fs" and f: "f = tagged ''Official Polygon'' f0"
      by auto
    from those_map_Some [OF assms(3) f0] have "has_properties f0"
      using property_has_properties by blast
    then show "property f ''feature_type'' = Some (JStr ''Official Polygon'')"
      unfolding f by (simp add: property_tagged)
  qed
  moreover have "\<forall>g \<in> set gs. property g ''feature_type'' = Some (JStr ''Generated Polygon'')"
    using those_map_set [OF assms(7)] generated_tag by blast
  ultimately show ?thesis using lgs by blast
qed

text \<open>Two official sites and two points give four features.\<close>

theorem process_country_merge_witness:
  "fst (process_country (fake_env sites_and_points_service) ''ABC'' (1/100)) =
     Inr (Some (collection
       [tagged ''Official Polygon'' (site_feature ''ABC001'' ''East''),
        tagged ''Official Polygon'' (site_feature ''ABC002'' ''West''),
        generated_feature ''ABC003'' ''North'',
        generated_feature ''ABC004'' ''South'']))"
proof -
  let ?env = "fake_env sites_and_points_service"
  have 1: "http_get ?env polygon_url (query_polygons_params ''ABC'')
      = Json_Body (JObj [(''type'', JStr ''FeatureCollection''),
          (''features'', JList [site_feature ''ABC001'' ''East'', site_feature ''ABC002'' ''West''])])"
    by (simp add: fake_env_def sites_and_points_service_def collection_def)
  have 2: "map_of [(''type'', JStr ''FeatureCollection''),
          (''features'', JList [site_feature ''ABC001'' ''East'', site_feature ''ABC002'' ''West''])]
        ''features'' = Some (JList [site_feature ''ABC001'' ''East'', site_feature ''ABC002'' ''West''])"
    by simp
  have 3: "those (map (\<lambda>f. property f ''site_code'')
        [site_feature ''ABC001'' ''East'', site_feature ''ABC002'' ''West''])
      = Some [JStr ''ABC001'', JStr ''ABC002'']"
    by (simp add: property_def site_feature_def)
  have 4: "http_get ?env points_url (query_points_params ?env ''ABC'' [JStr ''ABC001'', JStr ''ABC002''])
      = Json_Body (JObj [(''type'', JStr ''FeatureCollection''),
          (''features'', JList [point_feature ''ABC003'' ''North'', point_feature ''ABC004'' ''South''])])"
    by (simp add: fake_env_def sites_and_points_service_def collection_def points_url_def
        polygon_url_def)
  have 5: "map_of [(''type'', JStr ''FeatureCollection''),
          (''features'', JList [point_feature ''ABC003'' ''North'', point_feature ''ABC004'' ''South''])]
        ''features'' = Some (JList [point_feature ''ABC003'' ''North'', point_feature ''ABC004'' ''South''])"
    by simp
  have 6: "[point_feature ''ABC003'' ''North'', point_feature ''ABC004'' ''South''] \<noteq> []"
    by simp
  have 7: "those (map (generated_from ?env (1/100))
        [point_feature ''ABC003'' ''North'', point_feature ''ABC004'' ''South''])
      = Some [generated_feature ''ABC003'' ''North'', generated_feature ''ABC004'' ''South'']"
    by (simp add: generated_from_def point_feature_def generated_feature_def fake_env_def
        py_format_def)
  from process_country_merge [OF 1 2 3 4 5 6 7] show ?thesis
    by simp
qed

section \<open>The renaming of property keys\<close>

lemma properties_map_JObj:
  "map_of kv ''properties'' = Some (JObj p) \<Longrightarrow> properties_map (JObj kv) = map_of p"
  by (simp add: properties_map_def property_def fun_eq_iff)

lemma rename_property_absent:
  assumes "map_of kv ''properties'' = Some (JObj p)" and "map_of p old = None"
  shows "rename_property old new (JObj kv) = Inr (JObj kv)"
  using assms by (simp add: rename_property_def)

lemma rename_property_present:
  assumes "map_of kv ''properties'' = Some (JObj p)" and "map_of p old = Some v"
  shows "rename_property old new (JObj kv) =
     Inr (JObj (AList.update ''properties''
                 (JObj (AList.update new v (AList.delete old p))) kv))"
  using assms by (simp add: rename_property_def)

lemma has_properties_update:
  "has_properties (JObj (AList.update ''properties'' (JObj q) kv))"
  by (simp add: has_properties_def AList.update_conv')

lemma properties_map_update:
  "properties_map (JObj (AList.update ''properties'' (JObj q) kv)) = map_of q"
  by (rule properties_map_JObj) (simp add: AList.update_conv')

lemma map_of_renamed:
  "map_of p old = Some v \<Longrightarrow>
   map_of (AList.update new v (AList.delete old p)) = rename_map old new (map_of p)"
  by (simp add: rename_map_def AList.update_conv' AList.delete_conv')

lemma rename_property_cases:
  assumes "has_properties f"
  obtains f' where "rename_property old new f = Inr f'" and "has_properties f'"
    and "properties_map f' = rename_map old new (properties_map f)"
    and "properties_map f old = None \<longrightarrow> f' = f"
proof -
  from assms obtain kv p where f: "f = JObj kv" and p: "map_of kv ''properties'' = Some (JObj p)"
    by (rule has_propertiesE)
  have pm: "properties_map f = map_of p"
    unfolding f by (rule properties_map_JObj [OF p])
  show ?thesis
  proof (cases "map_of p old")
    case None
    have 1: "rename_property old new f = Inr f"
      unfolding f by (rule rename_property_absent [OF p None])
    have 2: "rename_map old new (properties_map f) = properties_map f"
      unfolding pm using None by (simp add: rename_map_def)
    show ?thesis
      by (rule that [OF 1 assms 2 [symmetric]]) simp
  next
    case (Some v)
    let ?f' = "JObj (AList.update ''properties''
                 (JObj (AList.update new v (AList.delete old p))) kv)"
    have 1: "rename_property old new f = Inr ?f'"
      unfolding f by (rule rename_property_present [OF p Some])
    have 2: "has_properties ?f'"
      by (rule has_properties_update)
    have 3: "properties_map ?f' = rename_map old new (properties_map f)"
      unfolding pm properties_map_update by (rule map_of_renamed [OF Some])
    have 4: "properties_map f old = None \<longrightarrow> ?f' = f"
      unfolding pm using Some by simp
    show ?thesis
      by (rule that [OF 1 2 3 4])
  qed
qed

lemma display_rename_cases:
  assumes "has_properties f"
  obtains f' where "display_rename f = Inr f'" and "has_properties f'"
    and "properties_map f' =
          rename_map ''gis_name'' ''name'' (rename_map ''pcode'' ''site_code'' (properties_map f))"
    and "properties_map f ''pcode'' = None \<and> properties_map f ''gis_name'' = None \<longrightarrow> f' = f"
proof -
  from assms obtain f1 where a: "rename_property ''pcode'' ''site_code'' f = Inr f1"
    and b: "has_properties f1"
    and c: "properties_map f1 = rename_map ''pcode'' ''site_code'' (properties_map f)"
    and d: "properties_map f ''pcode'' = None \<longrightarrow> f1 = f"
    by (rule rename_property_cases [where old = "''pcode''" and new = "''site_code''"]) (rule that)
  from b obtain f2 where a2: "rename_property ''gis_name'' ''name'' f1 = Inr f2"
    and b2: "has_properties f2"
    and c2: "properties_map f2 = rename_map ''gis_name'' ''name'' (properties_map f1)"
    and d2: "properties_map f1 ''gis_name'' = None \<longrightarrow> f2 = f1"
    by (rule rename_property_cases [where old = "''gis_name''" and new = "''name''"]) (rule that)
  have 1: "display_rename f = Inr f2"
    unfolding display_rename_def a by (simp only: then_do_Inr a2)
  have 3: "properties_map f2 =
      rename_map ''gis_name'' ''name'' (rename_map ''pcode'' ''site_code'' (properties_map f))"
    unfolding c2 c by (rule refl)
  have 4: "properties_map f ''pcode'' = None \<and> properties_map f ''gis_name'' = None \<longrightarrow> f2 = f"
  proof (intro impI, elim conjE)
    assume h1: "properties_map f ''pcode'' = None" and h2: "properties_map f ''gis_name'' = None"
    have e: "f1 = f" by (rule mp [OF d h1])
    have "f2 = f1" by (rule mp [OF d2]) (simp only: e h2)
    then show "f2 = f" by (simp only: e)
  qed
  show ?thesis
    by (rule that [OF 1 b2 3 4])
qed

lemma export_rename_cases:
  assumes "has_properties f"
  obtains f' where "export_rename f = Inr f'" and "has_properties f'"
    and "properties_map f' =
          rename_map ''name'' ''gis_name'' (rename_map ''site_code'' ''pcode'' (properties_map f))"
    and "properties_map f ''site_code'' = None \<and> properties_map f ''name'' = None \<longrightarrow> f' = f"
proof -
  from assms obtain f1 where a: "rename_property ''site_code'' ''pcode'' f = Inr f1"
    and b: "has_properties f1"
    and c: "properties_map f1 = rename_map ''site_code'' ''pcode'' (properties_map f)"
    and d: "properties_map f ''site_code'' = None \<longrightarrow> f1 = f"
    by (rule rename_property_cases [where old = "''site_code''" and new = "''pcode''"]) (rule that)
  from b obtain f2 where a2: "rename_property ''name'' ''gis_name'' f1 = Inr f2"
    and b2: "has_properties f2"
    and c2: "properties_map f2 = rename_map ''name'' ''gis_name'' (properties_map f1)"
    and d2: "properties_map f1 ''name'' = None \<longrightarrow> f2 = f1"
    by (rule rename_property_cases [where old = "''name''" and new = "''gis_name''"]) (rule that)
  have 1: "export_rename f = Inr f2"
    unfolding export_rename_def a by (simp only: then_do_Inr a2)
  have 3: "properties_map f2 =
      rename_map ''name'' ''gis_name'' (rename_map ''site_code'' ''pcode'' (properties_map f))"
    unfolding c2 c by (rule refl)
  have 4: "properties_map f ''site_code'' = None \<and> properties_map f ''name'' = None \<longrightarrow> f2 = f"
  proof (intro impI, elim conjE)
    assume h1: "properties_map f ''site_code'' = None" and h2: "properties_map f ''name'' = None"
    have e: "f1 = f" by (rule mp [OF d h1])
    have "f2 = f1" by (rule mp [OF d2]) (simp only: e h2)
    then show "f2 = f" by (simp only: e)
  qed
  show ?thesis
    by (rule that [OF 1 b2 3 4])
qed

lemma rename_map_apply:
  "rename_map old new m k =
     (case m old of
        None \<Rightarrow> m k
      | Some v \<Rightarrow> if k = new then Some v else if k = old then None else m k)"
  by (simp add: rename_map_def split: option.splits)

lemma export_map_wire:
  fixes m :: "string \<Rightarrow> json option"
  defines "m' \<equiv> rename_map ''name'' ''gis_name'' (rename_map ''site_code'' ''pcode'' m)"
  shows "m' ''site_code'' = None" and "m' ''name'' = None"
    and "m' ''pcode'' = (case m ''site_code'' of Some v \<Rightarrow> Some v | None \<Rightarrow> m ''pcode'')"
    and "m' ''gis_name'' = (case m ''name'' of Some v \<Rightarrow> Some v | None \<Rightarrow> m ''gis_name'')"
  unfolding m'_def by (simp_all add: rename_map_apply split: option.splits)

lemma round_trip_map:
  fixes m :: "string \<Rightarrow> json option"
  assumes "m ''site_code'' = None" and "m ''name'' = None"
  shows "rename_map ''name'' ''gis_name'' (rename_map ''site_code'' ''pcode''
           (rename_map ''gis_name'' ''name'' (rename_map ''pcode'' ''site_code'' m))) = m"
proof
  fix k
  show "rename_map ''name'' ''gis_name'' (rename_map ''site_code'' ''pcode''
           (rename_map ''gis_name'' ''name'' (rename_map ''pcode'' ''site_code'' m))) k = m k"
    using assms by (simp add: rename_map_apply split: option.splits)
qed

lemma round_trip_cases:
  assumes "has_properties f"
  obtains g where "round_trip f = Inr g" and "has_properties g"
    and "properties_map g ''site_code'' = None" and "properties_map g ''name'' = None"
    and "properties_map f ''site_code'' = None \<and> properties_map f ''name'' = None
           \<longrightarrow> properties_map g = properties_map f"
proof -
  from assms obtain d where d1: "display_rename f = Inr d" and d2: "has_properties d"
    and d3: "properties_map d =
          rename_map ''gis_name'' ''name'' (rename_map ''pcode'' ''site_code'' (properties_map f))"
    and d4: "properties_map f ''pcode'' = None \<and> properties_map f ''gis_name'' = None \<longrightarrow> d = f"
    by (rule display_rename_cases) (rule that)
  from d2 obtain g where g1: "export_rename d = Inr g" and g2: "has_properties g"
    and g3: "properties_map g =
          rename_map ''name'' ''gis_name'' (rename_map ''site_code'' ''pcode'' (properties_map d))"
    and g4: "properties_map d ''site_code'' = None \<and> properties_map d ''name'' = None \<longrightarrow> g = d"
    by (rule export_rename_cases) (rule that)
  have 1: "round_trip f = Inr g"
    unfolding round_trip_def d1 by (simp only: then_do_Inr g1)
  have 3: "properties_map g ''site_code'' = None"
    unfolding g3 by (rule export_map_wire(1))
  have 4: "properties_map g ''name'' = None"
    unfolding g3 by (rule export_map_wire(2))
  have 5: "properties_map f ''site_code'' = None \<and> properties_map f ''name'' = None
           \<longrightarrow> properties_map g = properties_map f"
  proof (intro impI, elim conjE)
    assume "properties_map f ''site_code'' = None" and "properties_map f ''name'' = None"
    then show "properties_map g = properties_map f"
      unfolding g3 d3 by (rule round_trip_map)
  qed
  show ?thesis
    by (rule that [OF 1 g2 3 4 5])
qed

text \<open>
  C3, as the code has it. For every feature with a properties dictionary: the renaming
  for display followed by the renaming for export succeeds, and doing it a second time
  leaves the properties mapping of the first result as it is; when the properties hold
  neither \<^verbatim>\<open>site_code\<close> nor \<^verbatim>\<open>name\<close>, the round trip gives back the original mapping, key
  for key; and each renaming returns the feature unchanged when its source keys are
  absent.
\<close>

theorem rename_round_trip:
  assumes "has_properties F"
  shows "\<exists>G H. round_trip F = Inr G \<and> round_trip G = Inr H
     \<and> properties_map H = properties_map G
     \<and> (properties_map F ''site_code'' = None \<and> properties_map F ''name'' = None
          \<longrightarrow> properties_map G = properties_map F)
     \<and> (properties_map F ''pcode'' = None \<and> properties_map F ''gis_name'' = None
          \<longrightarrow> display_rename F = Inr F)
     \<and> (properties_map F ''site_code'' = None \<and> properties_map F ''name'' = None
          \<longrightarrow> export_rename F = Inr F)"
proof -
  from assms obtain G where G1: "round_trip F = Inr G" and G2: "has_properties G"
    and G3: "properties_map G ''site_code'' = None" and G4: "properties_map G ''name'' = None"
    and G5: "properties_map F ''site_code'' = None \<and> properties_map F ''name'' = None
           \<longrightarrow> properties_map G = properties_map F"
    by (rule round_trip_cases) (rule that)
  from G2 obtain H where H1: "round_trip G = Inr H" and H2: "has_properties H"
    and H3: "properties_map H ''site_code'' = None" and H4: "properties_map H ''name'' = None"
    and H5: "properties_map G ''site_code'' = None \<and> properties_map G ''name'' = None
           \<longrightarrow> properties_map H = properties_map G"
    by (rule round_trip_cases) (rule that)
  have idem: "properties_map H = properties_map G"
    by (rule mp [OF H5 conjI [OF G3 G4]])
  from assms obtain d where d1: "display_rename F = Inr d"
    and d4: "properties_map F ''pcode'' = None \<and> properties_map F ''gis_name'' = None \<longrightarrow> d = F"
    by (rule display_rename_cases) (rule that)
  from assms obtain e where e1: "export_rename F = Inr e"
    and e4: "properties_map F ''site_code'' = None \<and> properties_map F ''name'' = None \<longrightarrow> e = F"
    by (rule export_rename_cases) (rule that)
  have dn: "properties_map F ''pcode'' = None \<and> properties_map F ''gis_name'' = None
          \<longrightarrow> display_rename F = Inr F"
  proof
    assume "properties_map F ''pcode'' = None \<and> properties_map F ''gis_name'' = None"
    with d4 have "d = F" by (rule mp)
    with d1 show "display_rename F = Inr F" by (simp only:)
  qed
  have en: "properties_map F ''site_code'' = None \<and> properties_map F ''name'' = None
          \<longrightarrow> export_rename F = Inr F"
  proof
    assume "properties_map F ''site_code'' = None \<and> properties_map F ''name'' = None"
    with e4 have "e = F" by (rule mp)
    with e1 show "export_rename F = Inr F" by (simp only:)
  qed
  show ?thesis
    apply (rule exI [of _ G])
    apply (rule exI [of _ H])
    apply (intro conjI)
         apply (rule G1)
        apply (rule H1)
       apply (rule idem)
      apply (rule G5)
     apply (rule dn)
    apply (rule en)
    done
qed

text \<open>C3 as the spec states it fails: an official polygon comes with \<^verbatim>\<open>site_code\<close> and
  \<^verbatim>\<open>name\<close>; the renaming for display leaves it alone and the renaming for export moves its
  values to \<^verbatim>\<open>pcode\<close> and \<^verbatim>\<open>gis_name\<close>.\<close>

theorem rename_round_trip_counterexample:
  "round_trip (site_feature ''ABC001'' ''East'') =
     Inr (JObj [(''type'', JStr ''Feature''),
                (''properties'', JObj [(''pcode'', JStr ''ABC001''), (''gis_name'', JStr ''East'')])])
   \<and> properties_map (site_feature ''ABC001'' ''East'') ''site_code'' = Some (JStr ''ABC001'')
   \<and> properties_map (JObj [(''type'', JStr ''Feature''),
        (''properties'', JObj [(''pcode'', JStr ''ABC001''), (''gis_name'', JStr ''East'')])])
        ''site_code'' = None"
  by (simp add: round_trip_def display_rename_def export_rename_def rename_property_def
      site_feature_def properties_map_def property_def)

text \<open>A point feature goes round unchanged; an official polygon is not renamed for
  display.\<close>

theorem rename_round_trip_witness:
  "has_properties (point_feature ''ABC003'' ''North'')
   \<and> (\<exists>G H. round_trip (point_feature ''ABC003'' ''North'') = Inr G \<and> round_trip G = Inr H
         \<and> properties_map H = properties_map G
         \<and> properties_map G = properties_map (point_feature ''ABC003'' ''North''))
   \<and> export_rename (point_feature ''ABC003'' ''North'') = Inr (point_feature ''ABC003'' ''North'')
   \<and> has_properties (site_feature ''ABC001'' ''East'')
   \<and> display_rename (site_feature ''ABC001'' ''East'') = Inr (site_feature ''ABC001'' ''East'')"
proof -
  let ?P = "point_feature ''ABC003'' ''North''"
  let ?S = "site_feature ''ABC001'' ''East''"
  have hP: "has_properties ?P"
    by (simp add: has_properties_def point_feature_def)
  have hS: "has_properties ?S"
    by (simp add: has_properties_def site_feature_def)
  have nP: "properties_map ?P ''site_code'' = None \<and> properties_map ?P ''name'' = None"
    by (simp add: properties_map_def property_def point_feature_def)
  have nS: "properties_map ?S ''pcode'' = None \<and> properties_map ?S ''gis_name'' = None"
    by (simp add: properties_map_def property_def site_feature_def)
  from rename_round_trip [OF hP] obtain G H where
    1: "round_trip ?P = Inr G" and 2: "round_trip G = Inr H"
    and 3: "properties_map H = properties_map G"
    and 4: "properties_map ?P ''site_code'' = None \<and> properties_map ?P ''name'' = None
          \<longrightarrow> properties_map G = properties_map ?P"
    and 5: "properties_map ?P ''site_code'' = None \<and> properties_map ?P ''name'' = None
          \<longrightarrow> export_rename ?P = Inr ?P"
    by (elim exE conjE)
  have 6: "properties_map G = properties_map ?P"
    by (rule mp [OF 4 nP])
  have 7: "export_rename ?P = Inr ?P"
    by (rule mp [OF 5 nP])
  from rename_round_trip [OF hS] have
    "properties_map ?S ''pcode'' = None \<and> properties_map ?S ''gis_name'' = None
          \<longrightarrow> display_rename ?S = Inr ?S"
    by (elim exE conjE)
  then have 8: "display_rename ?S = Inr ?S"
    using nS by (rule mp)
  have "\<exists>G H. round_trip ?P = Inr G \<and> round_trip G = Inr H
         \<and> properties_map H = properties_map G \<and> properties_map G = properties_map ?P"
    apply (rule exI [of _ G])
    apply (rule exI [of _ H])
    apply (intro conjI)
       apply (rule 1)
      apply (rule 2)
     apply (rule 3)
    apply (rule 6)
    done
  then show ?thesis
    using hP 7 hS 8 by (intro conjI)
qed

section \<open>Selection by label and export\<close>

















text \<open>A run of the page in which the labels are computed, a feature is selected and the
  map is drawn comes down to the export block on the renamed features.\<close>

lemma display_page_steps:
  assumes "subscr data ''features'' = Inr (JList fo)"
    and "traverse (feature_label env) fo = Inr labels"
    and "select_feature fo labels (selected_label ui) = Inr sf"
    and "draw_map env fo sf = Inr ()"
    and "traverse display_rename fo = Inr renamed"
  shows "display_page env cc ui data =
     (if generate_button ui
      then export_block env cc renamed labels (selected_features_to_export ui)
      else (Inr renamed, []))"
  by (simp add: display_page_def assms)







end
